theory Spec2Isabelle
  imports Complex_Main "HOL-Library.Stream"
begin

section \<open>The JavaScript number type\<close>

text \<open>
  Every quantity of \<^verbatim>\<open>exponential-backoff.ts\<close> is a JavaScript \<^verbatim>\<open>number\<close>,
  an IEEE-754 double. The model keeps the special values of the type and the overflow
  of a finite operation to an infinity; a finite result inside the range is kept as
  the exact real (rounding to 53 bits, underflow and the sign of zero are left out).
  \<open>NaN\<close> is a value of the type and every operation is defined on it, so
  it can come out of a computation on numbers, as \<open>0 * Infinity\<close> does.

  On doubles the exact result is the computed one wherever it is a double itself: in
  a comparison, in \<^verbatim>\<open>Math.floor\<close>, \<^verbatim>\<open>Math.min\<close>, \<^verbatim>\<open>Math.max\<close> and
  \<^verbatim>\<open>Math.abs\<close>, in adding 1 to or taking 1 from an integer below \<open>2^53\<close>, in a
  power of two and in a product with one, which is all the arithmetic of a call
  without jitter. The two products and the sum of the jitter
  branch are rounded by the code; of these only order between computed quantities is
  stated, never the value of an exact product or sum.
\<close>

datatype number = NaN | NegInfinity | Fin real | PosInfinity

text \<open>
  The least magnitude that rounds to an infinity: the largest double
  \<open>2^1024 - 2^971\<close> plus half a unit in its last place.
\<close>

definition overflow_threshold :: real where
  "overflow_threshold = 2 ^ 1024 - 2 ^ 970"

definition round_overflow :: "real \<Rightarrow> number" where
  "round_overflow x =
     (if overflow_threshold \<le> x then PosInfinity
      else if x \<le> - overflow_threshold then NegInfinity
      else Fin x)"

text \<open>The relational operators: every comparison with \<open>NaN\<close> is false.\<close>

fun js_lt :: "number \<Rightarrow> number \<Rightarrow> bool" where
  "js_lt NaN _ = False"
| "js_lt _ NaN = False"
| "js_lt _ NegInfinity = False"
| "js_lt NegInfinity _ = True"
| "js_lt PosInfinity _ = False"
| "js_lt (Fin x) PosInfinity = True"
| "js_lt (Fin x) (Fin y) = (x < y)"

definition js_gt :: "number \<Rightarrow> number \<Rightarrow> bool" where
  "js_gt a b = js_lt b a"

definition js_le :: "number \<Rightarrow> number \<Rightarrow> bool" where
  "js_le a b = (a \<noteq> NaN \<and> b \<noteq> NaN \<and> (a = b \<or> js_lt a b))"

definition js_ge :: "number \<Rightarrow> number \<Rightarrow> bool" where
  "js_ge a b = js_le b a"

text \<open>Arithmetic: \<open>*\<close>, \<open>+\<close>, unary and binary \<open>-\<close>.\<close>

fun js_mul :: "number \<Rightarrow> number \<Rightarrow> number" where
  "js_mul NaN _ = NaN"
| "js_mul _ NaN = NaN"
| "js_mul (Fin x) (Fin y) = round_overflow (x * y)"
| "js_mul (Fin x) PosInfinity =
     (if x = 0 then NaN else if 0 < x then PosInfinity else NegInfinity)"
| "js_mul (Fin x) NegInfinity =
     (if x = 0 then NaN else if 0 < x then NegInfinity else PosInfinity)"
| "js_mul PosInfinity (Fin y) =
     (if y = 0 then NaN else if 0 < y then PosInfinity else NegInfinity)"
| "js_mul NegInfinity (Fin y) =
     (if y = 0 then NaN else if 0 < y then NegInfinity else PosInfinity)"
| "js_mul PosInfinity PosInfinity = PosInfinity"
| "js_mul NegInfinity NegInfinity = PosInfinity"
| "js_mul PosInfinity NegInfinity = NegInfinity"
| "js_mul NegInfinity PosInfinity = NegInfinity"

fun js_add :: "number \<Rightarrow> number \<Rightarrow> number" where
  "js_add NaN _ = NaN"
| "js_add _ NaN = NaN"
| "js_add (Fin x) (Fin y) = round_overflow (x + y)"
| "js_add PosInfinity NegInfinity = NaN"
| "js_add NegInfinity PosInfinity = NaN"
| "js_add PosInfinity _ = PosInfinity"
| "js_add _ PosInfinity = PosInfinity"
| "js_add NegInfinity _ = NegInfinity"
| "js_add _ NegInfinity = NegInfinity"

fun js_neg :: "number \<Rightarrow> number" where
  "js_neg NaN = NaN"
| "js_neg NegInfinity = PosInfinity"
| "js_neg PosInfinity = NegInfinity"
| "js_neg (Fin x) = Fin (- x)"

definition js_sub :: "number \<Rightarrow> number \<Rightarrow> number" where
  "js_sub a b = js_add a (js_neg b)"

text \<open>The functions of \<^verbatim>\<open>Math\<close> that the calculator calls.\<close>

fun Math_floor :: "number \<Rightarrow> number" where
  "Math_floor (Fin x) = Fin (of_int \<lfloor>x\<rfloor>)"
| "Math_floor v = v"

definition Math_max :: "number \<Rightarrow> number \<Rightarrow> number" where
  "Math_max a b = (if a = NaN \<or> b = NaN then NaN else if js_lt a b then b else a)"

definition Math_min :: "number \<Rightarrow> number \<Rightarrow> number" where
  "Math_min a b = (if a = NaN \<or> b = NaN then NaN else if js_lt b a then b else a)"

fun Math_abs :: "number \<Rightarrow> number" where
  "Math_abs NaN = NaN"
| "Math_abs (Fin x) = Fin \<bar>x\<bar>"
| "Math_abs _ = PosInfinity"

text \<open>
  \<^verbatim>\<open>Math.pow(2, y)\<close>, the only use of \<^verbatim>\<open>Math.pow\<close> in the source: the base
  is the literal 2.
\<close>

fun Math_pow2 :: "number \<Rightarrow> number" where
  "Math_pow2 NaN = NaN"
| "Math_pow2 PosInfinity = PosInfinity"
| "Math_pow2 NegInfinity = Fin 0"
| "Math_pow2 (Fin y) = round_overflow (2 powr y)"

text \<open>
  \<^verbatim>\<open>Math.random()\<close> reads the next draw of an ambient source and advances it; the
  source is a stream of the draws to come, each a real in \<open>[0, 1)\<close>.
\<close>

definition Math_random :: "real stream \<Rightarrow> number \<times> real stream" where
  "Math_random rnd = (Fin (shd rnd), stl rnd)"


section \<open>BackoffOptions and BackoffResult\<close>

text \<open>The three fields of \<^verbatim>\<open>BackoffOptions\<close> are optional: \<open>None\<close> is a field left out.\<close>

record BackoffOptions =
  baseDelayMs :: "number option"
  maxDelayMs :: "number option"
  jitterFactor :: "number option"

record BackoffResult =
  delayMs :: number
  rawDelayMs :: number
  cappedDelayMs :: number
  jitterOffsetMs :: number
  wasCapped :: bool
  retryAttempt :: number

text \<open>The constructor of \<^verbatim>\<open>BackoffResult\<close>: it clamps the delay and derives \<open>wasCapped\<close>.\<close>

definition new_BackoffResult ::
  "number \<Rightarrow> number \<Rightarrow> number \<Rightarrow> number \<Rightarrow> number \<Rightarrow> BackoffResult" where
  "new_BackoffResult delay raw capped jitterOffset attempt =
     \<lparr> delayMs = Math_max (Fin 0) delay,
       rawDelayMs = raw,
       cappedDelayMs = capped,
       jitterOffsetMs = jitterOffset,
       wasCapped = js_gt raw capped,
       retryAttempt = attempt \<rparr>"


section \<open>calculateExponentialBackoff\<close>

text \<open>
  The parameter pattern
  \<^verbatim>\<open>{ baseDelayMs = 1000, maxDelayMs = 5000, jitterFactor = 0.2 }: BackoffOptions = {}\<close>:
  an argument left out is the empty object, and a field left out takes its default.
\<close>

definition empty_options :: BackoffOptions where
  "empty_options = \<lparr> baseDelayMs = None, maxDelayMs = None, jitterFactor = None \<rparr>"

definition arg_baseDelayMs :: "BackoffOptions option \<Rightarrow> number" where
  "arg_baseDelayMs opts =
     (case baseDelayMs (case opts of None \<Rightarrow> empty_options | Some obj \<Rightarrow> obj) of
        None \<Rightarrow> Fin 1000 | Some v \<Rightarrow> v)"

definition arg_maxDelayMs :: "BackoffOptions option \<Rightarrow> number" where
  "arg_maxDelayMs opts =
     (case maxDelayMs (case opts of None \<Rightarrow> empty_options | Some obj \<Rightarrow> obj) of
        None \<Rightarrow> Fin 5000 | Some v \<Rightarrow> v)"

definition arg_jitterFactor :: "BackoffOptions option \<Rightarrow> number" where
  "arg_jitterFactor opts =
     (case jitterFactor (case opts of None \<Rightarrow> empty_options | Some obj \<Rightarrow> obj) of
        None \<Rightarrow> Fin (2 / 10) | Some v \<Rightarrow> v)"

text \<open>The object literal \<^verbatim>\<open>{ baseDelayMs: b, maxDelayMs: m, jitterFactor: f }\<close>.\<close>

definition config :: "real \<Rightarrow> real \<Rightarrow> real \<Rightarrow> BackoffOptions option" where
  "config b m f =
     Some \<lparr> baseDelayMs = Some (Fin b), maxDelayMs = Some (Fin m), jitterFactor = Some (Fin f) \<rparr>"

text \<open>The same literal with fields that are any values of the number type.\<close>

definition config_of :: "number \<Rightarrow> number \<Rightarrow> number \<Rightarrow> BackoffOptions option" where
  "config_of b m f =
     Some \<lparr> baseDelayMs = Some b, maxDelayMs = Some m, jitterFactor = Some f \<rparr>"

text \<open>
  The calculator, statement by statement. The source of randomness is passed in and
  returned: it is advanced by the one draw of the jitter branch and by nothing else.
  The locals carry the names of the source without the suffix \<open>Ms\<close>, which is
  left to the fields of the result.
\<close>

definition calculateExponentialBackoff ::
  "number \<Rightarrow> BackoffOptions option \<Rightarrow> real stream \<Rightarrow> BackoffResult \<times> real stream" where
  "calculateExponentialBackoff attempt opts rnd =
     (let base = arg_baseDelayMs opts;
          maxDelay = arg_maxDelayMs opts;
          jitter = arg_jitterFactor opts;
          normalizedAttempt = Math_max (Fin 1) (Math_floor attempt);
          rawDelay = js_mul base (Math_pow2 (js_sub normalizedAttempt (Fin 1)));
          cappedDelay = Math_min rawDelay maxDelay
      in if js_gt jitter (Fin 0) then
           (let jitterRange = js_mul cappedDelay (Math_abs jitter);
                (u, rnd') = Math_random rnd;
                jitterOffset = js_mul (js_sub (js_mul u (Fin 2)) (Fin 1)) jitterRange;
                finalDelay = Math_max (Fin 0) (js_add cappedDelay jitterOffset)
            in (new_BackoffResult finalDelay rawDelay cappedDelay jitterOffset
                  normalizedAttempt, rnd'))
         else
           (new_BackoffResult cappedDelay rawDelay cappedDelay (Fin 0) normalizedAttempt,
            rnd))"






section \<open>RetryManager\<close>

text \<open>
  The private counter and the options with every field filled in. The timer that
  \<^verbatim>\<open>waitForNextRetry\<close> awaits passes time and changes nothing of the state.
\<close>

record RetryManager =
  attemptCount :: number
  options :: BackoffOptions

definition new_RetryManager :: "BackoffOptions option \<Rightarrow> RetryManager" where
  "new_RetryManager opts =
     (let obj = (case opts of None \<Rightarrow> empty_options | Some obj \<Rightarrow> obj)
      in \<lparr> attemptCount = Fin 0,
           options =
             \<lparr> baseDelayMs =
                 Some (case baseDelayMs obj of None \<Rightarrow> Fin 1000 | Some v \<Rightarrow> v),
               maxDelayMs =
                 Some (case maxDelayMs obj of None \<Rightarrow> Fin 5000 | Some v \<Rightarrow> v),
               jitterFactor =
                 Some (case jitterFactor obj of None \<Rightarrow> Fin (2 / 10) | Some v \<Rightarrow> v) \<rparr> \<rparr>)"

definition waitForNextRetry ::
  "RetryManager \<Rightarrow> real stream \<Rightarrow> BackoffResult \<times> RetryManager \<times> real stream" where
  "waitForNextRetry m rnd =
     (let m' = m \<lparr> attemptCount := js_add (attemptCount m) (Fin 1) \<rparr>;
          (backoffResult, rnd') =
             calculateExponentialBackoff (attemptCount m') (Some (options m')) rnd
      in (backoffResult, m', rnd'))"

definition previewNextDelay :: "RetryManager \<Rightarrow> real stream \<Rightarrow> BackoffResult \<times> real stream" where
  "previewNextDelay m rnd =
     calculateExponentialBackoff (js_add (attemptCount m) (Fin 1)) (Some (options m)) rnd"

definition reset :: "RetryManager \<Rightarrow> RetryManager" where
  "reset m = m \<lparr> attemptCount := Fin 0 \<rparr>"


section \<open>Facts about the number operations\<close>

subsection \<open>Overflow\<close>

lemma overflow_threshold_large: "10 ^ 18 < overflow_threshold"
  unfolding overflow_threshold_def by simp

lemma overflow_threshold_pos: "0 < overflow_threshold"
proof -
  have "(0::real) < 10 ^ 18" by simp
  then show ?thesis using overflow_threshold_large by linarith
qed

lemma round_overflow_Fin:
  "- overflow_threshold < x \<Longrightarrow> x < overflow_threshold \<Longrightarrow> round_overflow x = Fin x"
  by (simp add: round_overflow_def)

lemma round_overflow_small: "\<bar>x\<bar> \<le> 10 ^ 18 \<Longrightarrow> round_overflow x = Fin x"
  using overflow_threshold_large by (intro round_overflow_Fin) linarith+

lemma round_overflow_not_NaN: "round_overflow x \<noteq> NaN"
  by (simp add: round_overflow_def)

lemma round_overflow_pos: "0 < x \<Longrightarrow> js_lt (Fin 0) (round_overflow x)"
  using overflow_threshold_pos by (simp add: round_overflow_def)

lemma round_overflow_nonneg: "0 \<le> x \<Longrightarrow> js_le (Fin 0) (round_overflow x)"
  using overflow_threshold_pos by (auto simp: round_overflow_def js_le_def)

lemma round_overflow_mono: "x \<le> y \<Longrightarrow> js_le (round_overflow x) (round_overflow y)"
  using overflow_threshold_pos by (auto simp: round_overflow_def js_le_def)

lemma Math_pow2_1024: "Math_pow2 (Fin 1024) = PosInfinity"
  by (simp add: round_overflow_def overflow_threshold_def)



lemma threshold_le_pow_1024: "overflow_threshold \<le> (2::real) powr 1024"
  unfolding overflow_threshold_def by simp

lemma Math_pow2_overflow:
  assumes "1024 \<le> y"
  shows "Math_pow2 (round_overflow y) = PosInfinity"
proof (cases "overflow_threshold \<le> y")
  case True
  then show ?thesis by (simp add: round_overflow_def)
next
  case False
  have "\<not> y \<le> - overflow_threshold"
    using assms overflow_threshold_pos by linarith
  then have ro: "round_overflow y = Fin y"
    using False by (simp add: round_overflow_def)
  have "(2::real) powr 1024 \<le> 2 powr y"
    by (rule powr_mono) (use assms in simp_all)
  with threshold_le_pow_1024 have "overflow_threshold \<le> 2 powr y"
    by (rule order_trans)
  then show ?thesis unfolding ro by (simp add: round_overflow_def)
qed


subsection \<open>Order\<close>

lemma js_le_Fin [simp]: "js_le (Fin x) (Fin y) = (x \<le> y)"
  by (auto simp: js_le_def)

lemma js_le_cases:
  "js_le a b = (case (a, b) of
      (NaN, _) \<Rightarrow> False | (_, NaN) \<Rightarrow> False
    | (NegInfinity, _) \<Rightarrow> True | (_, PosInfinity) \<Rightarrow> True
    | (Fin x, Fin y) \<Rightarrow> x \<le> y | _ \<Rightarrow> False)"
  by (cases a; cases b) (auto simp: js_le_def)

lemma js_le_not_gt: "js_le a b \<Longrightarrow> \<not> js_gt a b"
  by (cases a; cases b) (auto simp: js_le_def js_gt_def)

lemma js_ge_zero_iff: "\<not> js_lt d (Fin 0) \<Longrightarrow> js_ge d (Fin 0) = (d \<noteq> NaN)"
  by (cases d) (auto simp: js_ge_def js_le_def)

subsection \<open>Monotone operations\<close>

lemma Math_floor_mono: "js_le a b \<Longrightarrow> js_le (Math_floor a) (Math_floor b)"
  by (cases a; cases b) (auto simp: js_le_cases floor_mono)

lemma Math_max_mono: "js_le a b \<Longrightarrow> c \<noteq> NaN \<Longrightarrow> js_le (Math_max c a) (Math_max c b)"
  by (cases a; cases b; cases c) (auto simp: js_le_def Math_max_def)

lemma Math_min_mono: "js_le a b \<Longrightarrow> c \<noteq> NaN \<Longrightarrow> js_le (Math_min a c) (Math_min b c)"
  by (cases a; cases b; cases c) (auto simp: js_le_def Math_min_def)

lemma Math_max_ge_left: "b \<noteq> NaN \<Longrightarrow> a \<noteq> NaN \<Longrightarrow> js_le a (Math_max a b)"
  by (cases a; cases b) (auto simp: js_le_def Math_max_def)

lemma js_sub_1_mono: "js_le a b \<Longrightarrow> js_le (js_sub a (Fin 1)) (js_sub b (Fin 1))"
  using round_overflow_mono [of "x - 1" "y - 1" for x y]
  by (cases a; cases b) (auto simp: js_sub_def js_le_cases round_overflow_not_NaN split: number.splits)

lemma Math_pow2_mono: "js_le a b \<Longrightarrow> js_le (Math_pow2 a) (Math_pow2 b)"
proof (cases a; cases b)
  fix x y assume "a = Fin x" "b = Fin y" and le: "js_le a b"
  then have "(2::real) powr x \<le> 2 powr y" by (simp add: powr_mono)
  then show ?thesis using \<open>a = Fin x\<close> \<open>b = Fin y\<close> by (simp add: round_overflow_mono)
next
  fix y assume "a = NegInfinity" "b = Fin y"
  then show ?thesis using round_overflow_nonneg [of "2 powr y"] by simp
qed (auto simp: js_le_cases round_overflow_not_NaN split: number.splits)

lemma Math_pow2_pos: "js_le (Fin 0) e \<Longrightarrow> js_lt (Fin 0) (Math_pow2 e)"
  by (cases e) (auto simp: js_le_cases round_overflow_pos)

lemma js_mul_mono:
  "js_lt (Fin 0) c \<Longrightarrow> js_lt (Fin 0) p \<Longrightarrow> js_le p q \<Longrightarrow> js_le (js_mul c p) (js_mul c q)"
proof (cases c; cases p; cases q)
  fix x y z assume eq: "c = Fin x" "p = Fin y" "q = Fin z"
    and "js_lt (Fin 0) c" "js_le p q"
  then have "x * y \<le> x * z" by (simp add: mult_left_mono)
  then show ?thesis using eq by (simp add: round_overflow_mono)
next
  fix x y assume eq: "c = Fin x" "p = Fin y" "q = PosInfinity" and "js_lt (Fin 0) c"
  then show ?thesis by (simp add: js_le_def round_overflow_def)
next
  fix y z assume eq: "c = PosInfinity" "p = Fin y" "q = Fin z"
    and "js_lt (Fin 0) p" "js_le p q"
  then show ?thesis by (auto simp: js_le_def)
qed (auto simp: js_le_def)

lemma js_mul_pos:
  "js_lt (Fin 0) c \<Longrightarrow> js_lt (Fin 0) p \<Longrightarrow> js_lt (Fin 0) (js_mul c p)"
  by (cases c; cases p) (auto simp: round_overflow_pos)

lemma delay_bound:
  "js_lt (Fin 0) base \<Longrightarrow> raw \<noteq> NaN \<Longrightarrow> m \<noteq> NaN \<Longrightarrow>
   js_le (Math_max (Fin 0) (Math_min raw m)) (Math_max base m)"
  by (cases base; cases raw; cases m) (auto simp: js_le_cases Math_max_def Math_min_def)

lemma Math_max_zero_not_negative: "\<not> js_lt (Math_max (Fin 0) d) (Fin 0)"
  by (cases d) (auto simp: Math_max_def)

lemma capped_finite:
  assumes "js_lt (Fin 0) raw"
  shows "\<exists>c. Math_min raw (Fin m) = Fin c \<and> \<bar>c\<bar> \<le> \<bar>m\<bar>"
  using assms by (cases raw) (auto simp: Math_min_def)


lemma draw_scaled:
  assumes "0 \<le> u" "u < 1"
  shows "js_sub (js_mul (Fin u) (Fin 2)) (Fin 1) = Fin (2 * u - 1)"
proof -
  have "\<bar>u * 2\<bar> \<le> 10 ^ 18" "\<bar>u * 2 - 1\<bar> \<le> 10 ^ 18" using assms by simp_all
  then show ?thesis by (simp add: js_sub_def round_overflow_small mult.commute)
qed




subsection \<open>Rounding\<close>

text \<open>
  The two products and the sum of the jitter branch are rounded by the double
  arithmetic of the code, and the model keeps them exact. A rounding to nearest is
  monotone and odd and keeps a double as it is. For every such function the rounded
  offset lies within the rounded range, and the rounded sum between the rounded ends:
  the order between the computed quantities, in which the bounds of the jitter are
  stated below, does not depend on the rounding.
\<close>

lemma bounds_survive_rounding:
  fixes rd :: "real \<Rightarrow> real"
  assumes mono: "\<And>x y. x \<le> y \<Longrightarrow> rd x \<le> rd y"
    and odd: "\<And>x. rd (- x) = - rd x"
    and keeps: "\<And>x. rd (rd x) = rd x"
    and c: "0 \<le> c" and f: "0 \<le> f" and s: "- 1 \<le> s" "s \<le> 1"
  shows "- rd (c * f) \<le> rd (s * rd (c * f)) \<and> rd (s * rd (c * f)) \<le> rd (c * f) \<and>
         rd (c - rd (c * f)) \<le> rd (c + rd (s * rd (c * f))) \<and>
         rd (c + rd (s * rd (c * f))) \<le> rd (c + rd (c * f))"
proof -
  let ?R = "rd (c * f)"
  let ?off = "rd (s * ?R)"
  have "rd 0 = 0" using odd [of 0] by simp
  moreover have "rd 0 \<le> ?R" using c f by (intro mono) simp
  ultimately have R: "0 \<le> ?R" by simp
  have "- ?R \<le> s * ?R" using mult_right_mono [OF s(1) R] by simp
  then have "rd (- ?R) \<le> ?off" by (rule mono)
  then have lo: "- ?R \<le> ?off" by (simp add: odd keeps)
  have "s * ?R \<le> ?R" using mult_right_mono [OF s(2) R] by simp
  then have "?off \<le> rd ?R" by (rule mono)
  then have hi: "?off \<le> ?R" by (simp add: keeps)
  have "rd (c - ?R) \<le> rd (c + ?off)" using lo by (intro mono) simp
  moreover have "rd (c + ?off) \<le> rd (c + ?R)" using hi by (intro mono) simp
  ultimately show ?thesis using lo hi by simp
qed

subsection \<open>Normalising the attempt\<close>

lemma normalize_below_two: "js_lt a (Fin 2) \<Longrightarrow> Math_max (Fin 1) (Math_floor a) = Fin 1"
proof (cases a)
  case (Fin x)
  assume "js_lt a (Fin 2)"
  with Fin have "x < 2" by simp
  then have "\<lfloor>x\<rfloor> \<le> 1" by linarith
  then have "\<lfloor>x\<rfloor> < 1 \<or> \<lfloor>x\<rfloor> = 1" by linarith
  then show ?thesis using Fin by (auto simp: Math_max_def)
qed (auto simp: Math_max_def)

lemma Math_floor_idem: "Math_floor (Math_floor a) = Math_floor a"
  by (cases a) auto




lemma exponent_large:
  assumes "1025 \<le> x"
  shows "Math_pow2 (js_sub (Math_max (Fin 1) (Math_floor (Fin x))) (Fin 1)) = PosInfinity"
proof -
  have fl: "1025 \<le> \<lfloor>x\<rfloor>" using assms by linarith
  then have n: "Math_max (Fin 1) (Math_floor (Fin x)) = Fin (of_int \<lfloor>x\<rfloor>)"
    by (auto simp: Math_max_def)
  have "js_sub (Fin (of_int \<lfloor>x\<rfloor>)) (Fin 1) = round_overflow (of_int \<lfloor>x\<rfloor> - 1)"
    by (simp add: js_sub_def)
  moreover have "1024 \<le> real_of_int \<lfloor>x\<rfloor> - 1" using fl by linarith
  ultimately show ?thesis using n by (simp add: Math_pow2_overflow)
qed


section \<open>Facts about the calculator\<close>

lemma arg_config [simp]:
  "arg_baseDelayMs (config b m f) = Fin b"
  "arg_maxDelayMs (config b m f) = Fin m"
  "arg_jitterFactor (config b m f) = Fin f"
  by (simp_all add: config_def arg_baseDelayMs_def arg_maxDelayMs_def arg_jitterFactor_def)

lemma arg_config_of [simp]:
  "arg_baseDelayMs (config_of b m f) = b"
  "arg_maxDelayMs (config_of b m f) = m"
  "arg_jitterFactor (config_of b m f) = f"
  by (simp_all add: config_of_def arg_baseDelayMs_def arg_maxDelayMs_def arg_jitterFactor_def)

lemma arg_None [simp]:
  "arg_baseDelayMs None = Fin 1000"
  "arg_maxDelayMs None = Fin 5000"
  "arg_jitterFactor None = Fin (2 / 10)"
  by (simp_all add: empty_options_def arg_baseDelayMs_def arg_maxDelayMs_def
        arg_jitterFactor_def)

lemma retryAttempt_calc:
  "retryAttempt (fst (calculateExponentialBackoff a opts rnd)) = Math_max (Fin 1) (Math_floor a)"
  by (simp add: calculateExponentialBackoff_def new_BackoffResult_def Let_def split: prod.splits)

lemma rawDelayMs_calc:
  "rawDelayMs (fst (calculateExponentialBackoff a opts rnd)) =
     js_mul (arg_baseDelayMs opts) (Math_pow2 (js_sub (Math_max (Fin 1) (Math_floor a)) (Fin 1)))"
  by (simp add: calculateExponentialBackoff_def new_BackoffResult_def Let_def split: prod.splits)

lemma cappedDelayMs_calc:
  "cappedDelayMs (fst (calculateExponentialBackoff a opts rnd)) =
     Math_min (rawDelayMs (fst (calculateExponentialBackoff a opts rnd))) (arg_maxDelayMs opts)"
  by (simp add: calculateExponentialBackoff_def new_BackoffResult_def Let_def split: prod.splits)

lemma wasCapped_calc:
  "wasCapped (fst (calculateExponentialBackoff a opts rnd)) =
     js_gt (rawDelayMs (fst (calculateExponentialBackoff a opts rnd)))
           (cappedDelayMs (fst (calculateExponentialBackoff a opts rnd)))"
  by (simp add: calculateExponentialBackoff_def new_BackoffResult_def Let_def split: prod.splits)

lemma calc_no_jitter:
  "\<not> js_gt (arg_jitterFactor opts) (Fin 0) \<Longrightarrow>
   calculateExponentialBackoff a opts rnd =
     (let r = js_mul (arg_baseDelayMs opts) (Math_pow2 (js_sub (Math_max (Fin 1) (Math_floor a)) (Fin 1)));
          c = Math_min r (arg_maxDelayMs opts)
      in (\<lparr> delayMs = Math_max (Fin 0) c, rawDelayMs = r, cappedDelayMs = c,
            jitterOffsetMs = Fin 0, wasCapped = js_gt r c,
            retryAttempt = Math_max (Fin 1) (Math_floor a) \<rparr>, rnd))"
  by (simp add: calculateExponentialBackoff_def new_BackoffResult_def Let_def)

lemma calc_jitter:
  "js_gt (arg_jitterFactor opts) (Fin 0) \<Longrightarrow>
   calculateExponentialBackoff a opts rnd =
     (let r = js_mul (arg_baseDelayMs opts) (Math_pow2 (js_sub (Math_max (Fin 1) (Math_floor a)) (Fin 1)));
          c = Math_min r (arg_maxDelayMs opts);
          off = js_mul (js_sub (js_mul (Fin (shd rnd)) (Fin 2)) (Fin 1))
                  (js_mul c (Math_abs (arg_jitterFactor opts)))
      in (\<lparr> delayMs = Math_max (Fin 0) (Math_max (Fin 0) (js_add c off)), rawDelayMs = r,
            cappedDelayMs = c, jitterOffsetMs = off, wasCapped = js_gt r c,
            retryAttempt = Math_max (Fin 1) (Math_floor a) \<rparr>, stl rnd))"
  by (simp add: calculateExponentialBackoff_def new_BackoffResult_def Let_def Math_random_def)

lemma calc_normalized:
  "Math_max (Fin 1) (Math_floor a) = Math_max (Fin 1) (Math_floor b) \<Longrightarrow>
   calculateExponentialBackoff a opts rnd = calculateExponentialBackoff b opts rnd"
  by (simp add: calculateExponentialBackoff_def)


lemma raw_overflows:
  assumes "arg_baseDelayMs opts = Fin b" "0 < b" "1025 \<le> x"
  shows "rawDelayMs (fst (calculateExponentialBackoff (Fin x) opts rnd)) = PosInfinity"
  using assms(1,2) by (simp only: rawDelayMs_calc exponent_large [OF assms(3)]) simp

lemma raw_overflows_negative:
  assumes "arg_baseDelayMs opts = Fin b" "b < 0" "1025 \<le> x"
  shows "rawDelayMs (fst (calculateExponentialBackoff (Fin x) opts rnd)) = NegInfinity"
  using assms(1,2) by (simp only: rawDelayMs_calc exponent_large [OF assms(3)]) simp

lemma raw_positive:
  assumes "a \<noteq> NaN" "js_lt (Fin 0) (arg_baseDelayMs opts)"
  shows "js_lt (Fin 0) (rawDelayMs (fst (calculateExponentialBackoff a opts rnd)))"
proof -
  have "Math_floor a \<noteq> NaN" using assms(1) by (cases a) simp_all
  then have "js_le (Fin 1) (Math_max (Fin 1) (Math_floor a))"
    by (intro Math_max_ge_left) simp_all
  then have "js_le (js_sub (Fin 1) (Fin 1)) (js_sub (Math_max (Fin 1) (Math_floor a)) (Fin 1))"
    by (rule js_sub_1_mono)
  then have "js_le (Fin 0) (js_sub (Math_max (Fin 1) (Math_floor a)) (Fin 1))"
    by (simp add: js_sub_def round_overflow_small)
  then have "js_lt (Fin 0) (Math_pow2 (js_sub (Math_max (Fin 1) (Math_floor a)) (Fin 1)))"
    by (rule Math_pow2_pos)
  with assms(2) show ?thesis
    unfolding rawDelayMs_calc by (rule js_mul_pos)
qed

lemma delayMs_clamped:
  "\<exists>d. delayMs (fst (calculateExponentialBackoff a opts rnd)) = Math_max (Fin 0) d"
  by (cases "js_gt (arg_jitterFactor opts) (Fin 0)")
     (auto simp: calc_jitter calc_no_jitter Let_def)

lemma delayMs_not_negative:
  "\<not> js_lt (delayMs (fst (calculateExponentialBackoff a opts rnd))) (Fin 0)"
  using delayMs_clamped [of a opts rnd] Math_max_zero_not_negative by auto




text \<open>The rules that evaluate the calculator on literal arguments.\<close>

lemmas eval_simps = calc_no_jitter calc_jitter Math_max_def Math_min_def js_gt_def js_sub_def
  round_overflow_small Let_def


section \<open>The properties of the specification\<close>

subsection \<open>Delay without jitter\<close>




subsection \<open>Attempts that are not positive integers\<close>

text \<open>
  Claim C2, as amended. Every attempt \<open>\<le> 0\<close> (-Infinity among them), and more
  generally every attempt below 2, so every fraction between 0 and 2, gives the very
  result of attempt 1, for every configuration and the same draw. Every attempt gives
  the result of its floor, so a fraction above 2 is treated as the integer below it, not
  as attempt 1.
\<close>

theorem attempt_floor:
  "(js_le a (Fin 0) \<longrightarrow>
      calculateExponentialBackoff a opts rnd = calculateExponentialBackoff (Fin 1) opts rnd) \<and>
   (js_lt a (Fin 2) \<longrightarrow>
      calculateExponentialBackoff a opts rnd = calculateExponentialBackoff (Fin 1) opts rnd) \<and>
   calculateExponentialBackoff a opts rnd = calculateExponentialBackoff (Math_floor a) opts rnd"
proof -
  have one: "calculateExponentialBackoff a opts rnd = calculateExponentialBackoff (Fin 1) opts rnd"
    if "js_lt a (Fin 2)"
  proof -
    have "Math_max (Fin 1) (Math_floor a) = Fin 1"
      using that by (rule normalize_below_two)
    moreover have "Math_max (Fin 1) (Math_floor (Fin 1)) = Fin 1"
      by (simp add: Math_max_def)
    ultimately have "Math_max (Fin 1) (Math_floor a) = Math_max (Fin 1) (Math_floor (Fin 1))"
      by simp
    then show ?thesis by (rule calc_normalized)
  qed
  have below: "js_lt a (Fin 2)" if "js_le a (Fin 0)"
    using that by (cases a) (auto simp: js_le_def)
  have "calculateExponentialBackoff a opts rnd = calculateExponentialBackoff (Math_floor a) opts rnd"
    by (rule calc_normalized) (simp add: Math_floor_idem)
  with one below show ?thesis by blast
qed

theorem attempt_floor_witness:
  "js_lt (Fin (3 / 2)) (Fin 2) \<and> of_int \<lfloor>3 / 2 :: real\<rfloor> \<noteq> (3 / 2 :: real) \<and>
   calculateExponentialBackoff (Fin (3 / 2)) (config 1000 5000 0) (sconst 0) =
     calculateExponentialBackoff (Fin 1) (config 1000 5000 0) (sconst 0) \<and>
   js_le (Fin (- 4)) (Fin 0) \<and>
   calculateExponentialBackoff (Fin (- 4)) (config 1000 5000 0) (sconst 0) =
     calculateExponentialBackoff (Fin 1) (config 1000 5000 0) (sconst 0)"
  using attempt_floor [of "Fin (3 / 2)" "config 1000 5000 0" "sconst 0"]
    attempt_floor [of "Fin (- 4)" "config 1000 5000 0" "sconst 0"]
  by simp

text \<open>
  The claim as stated fails at the non-integer attempt 2.5: it is treated as attempt 2
  (retryAttempt 2, delayMs 2000), where attempt 1 has retryAttempt 1 and delayMs 1000.
\<close>

theorem attempt_fractional_counterexample:
  "of_int \<lfloor>5 / 2 :: real\<rfloor> \<noteq> (5 / 2 :: real) \<and>
   retryAttempt (fst (calculateExponentialBackoff (Fin (5 / 2)) (config 1000 5000 0) (sconst 0))) = Fin 2 \<and>
   delayMs (fst (calculateExponentialBackoff (Fin (5 / 2)) (config 1000 5000 0) (sconst 0))) = Fin 2000 \<and>
   retryAttempt (fst (calculateExponentialBackoff (Fin 1) (config 1000 5000 0) (sconst 0))) = Fin 1 \<and>
   delayMs (fst (calculateExponentialBackoff (Fin 1) (config 1000 5000 0) (sconst 0))) = Fin 1000"
  by (simp add: eval_simps)

subsection \<open>The delay is never negative\<close>

text \<open>
  Claim C3, as amended. For every attempt, configuration and draw, delayMs is never
  below 0, and delayMs \<open>\<ge> 0\<close> holds exactly when delayMs is not NaN. It is not NaN, and so
  is \<open>\<ge> 0\<close>, whenever the attempt is not NaN, baseDelayMs is finite and positive,
  maxDelayMs and jitterFactor are finite with a product inside the double range, and
  the draw lies in \<open>[0, 1)\<close>.
\<close>

theorem delay_not_negative:
  "(let r = fst (calculateExponentialBackoff a opts rnd)
    in \<not> js_lt (delayMs r) (Fin 0) \<and>
       js_ge (delayMs r) (Fin 0) = (delayMs r \<noteq> NaN) \<and>
       (a \<noteq> NaN \<and> arg_baseDelayMs opts = Fin b \<and> 0 < b \<and> arg_maxDelayMs opts = Fin m \<and>
        arg_jitterFactor opts = Fin f \<and> \<bar>m * f\<bar> < overflow_threshold \<and>
        0 \<le> shd rnd \<and> shd rnd < 1 \<longrightarrow> js_ge (delayMs r) (Fin 0)))"
proof -
  let ?r = "fst (calculateExponentialBackoff a opts rnd)"
  have nonneg: "\<not> js_lt (delayMs ?r) (Fin 0)" by (rule delayMs_not_negative)
  have iff: "js_ge (delayMs ?r) (Fin 0) = (delayMs ?r \<noteq> NaN)"
    using nonneg by (rule js_ge_zero_iff)
  have "delayMs ?r \<noteq> NaN"
    if h: "a \<noteq> NaN" "arg_baseDelayMs opts = Fin b" "0 < b" "arg_maxDelayMs opts = Fin m"
      "arg_jitterFactor opts = Fin f" "\<bar>m * f\<bar> < overflow_threshold"
      "0 \<le> shd rnd" "shd rnd < 1"
  proof -
    have "js_lt (Fin 0) (rawDelayMs ?r)"
      using h(1,3) by (intro raw_positive) (simp_all add: h(2))
    then obtain c where c: "Math_min (rawDelayMs ?r) (Fin m) = Fin c" "\<bar>c\<bar> \<le> \<bar>m\<bar>"
      using capped_finite by blast
    then have capped: "cappedDelayMs ?r = Fin c"
      by (simp add: cappedDelayMs_calc h(4))
    show ?thesis
    proof (cases "0 < f")
      case False
      then have off: "\<not> js_gt (arg_jitterFactor opts) (Fin 0)"
        by (simp add: h(5) js_gt_def)
      have "delayMs ?r = Math_max (Fin 0) (cappedDelayMs ?r)"
        by (simp add: calc_no_jitter [OF off] Let_def)
      then show ?thesis by (simp add: capped Math_max_def)
    next
      case True
      then have on: "js_gt (arg_jitterFactor opts) (Fin 0)"
        by (simp add: h(5) js_gt_def)
      have "\<bar>c * \<bar>f\<bar>\<bar> \<le> \<bar>m * f\<bar>"
        using c(2) by (simp add: abs_mult mult_right_mono)
      then have "\<bar>c * \<bar>f\<bar>\<bar> < overflow_threshold" using h(6) by linarith
      then have range: "js_mul (Fin c) (Math_abs (Fin f)) = Fin (c * \<bar>f\<bar>)"
        by (simp add: round_overflow_Fin)
      have "delayMs ?r = Math_max (Fin 0) (Math_max (Fin 0) (js_add (cappedDelayMs ?r)
          (js_mul (js_sub (js_mul (Fin (shd rnd)) (Fin 2)) (Fin 1))
             (js_mul (cappedDelayMs ?r) (Math_abs (arg_jitterFactor opts))))))"
        by (simp add: calc_jitter [OF on] Let_def)
      then have "delayMs ?r = Math_max (Fin 0) (Math_max (Fin 0) (js_add (Fin c)
          (round_overflow ((2 * shd rnd - 1) * (c * \<bar>f\<bar>)))))"
        unfolding capped h(5) range draw_scaled [OF h(7,8)] by simp
      moreover have "Math_max (Fin 0) (Math_max (Fin 0) (js_add (Fin c) (round_overflow y))) \<noteq> NaN"
        for y
        by (auto simp: round_overflow_def Math_max_def)
      ultimately show ?thesis by simp
    qed
  qed
  then show ?thesis using nonneg iff by (simp add: Let_def)
qed

theorem delay_not_negative_witness:
  "Fin 3 \<noteq> NaN \<and> arg_baseDelayMs None = Fin 1000 \<and> (0::real) < 1000 \<and>
   arg_maxDelayMs None = Fin 5000 \<and> arg_jitterFactor None = Fin (2 / 10) \<and>
   \<bar>5000 * (2 / 10)\<bar> < overflow_threshold \<and>
   (0::real) \<le> shd (sconst 0) \<and> shd (sconst (0::real)) < 1 \<and>
   js_ge (delayMs (fst (calculateExponentialBackoff (Fin 3) None (sconst 0)))) (Fin 0) \<and>
   delayMs (fst (calculateExponentialBackoff (Fin 3) None (sconst 0))) = Fin 3200"
proof -
  have small: "\<bar>5000 * (2 / 10)\<bar> < overflow_threshold"
    using overflow_threshold_large by simp
  have "delayMs (fst (calculateExponentialBackoff (Fin 3) None (sconst 0))) = Fin 3200"
    by (simp add: eval_simps)
  with small delay_not_negative [of "Fin 3" None "sconst 0" 1000 5000 "2 / 10"]
  show ?thesis by (simp add: Let_def)
qed

text \<open>
  The claim as stated, for any baseDelayMs, fails at baseDelayMs = 0 and attempt 1025:
  \<^verbatim>\<open>Math.pow(2, 1024)\<close> is Infinity, \<^verbatim>\<open>0 * Infinity\<close> is NaN, and the two calls of
  \<^verbatim>\<open>Math.max(0, NaN)\<close> return NaN, for which \<open>\<ge> 0\<close> is false.
\<close>

theorem delay_not_negative_counterexample:
  "delayMs (fst (calculateExponentialBackoff (Fin 1025) (config 0 5000 (2 / 10)) (sconst 0))) = NaN \<and>
   \<not> js_ge (delayMs (fst (calculateExponentialBackoff (Fin 1025) (config 0 5000 (2 / 10)) (sconst 0))))
       (Fin 0)"
  by (simp add: eval_simps Math_pow2_1024 js_ge_def js_le_def del: Math_pow2.simps)

subsection \<open>The range of the jitter\<close>




subsection \<open>Jitter switched off\<close>

text \<open>
  Claim C5, as amended. With jitterFactor \<open>\<le> 0\<close>, for every attempt and configuration:
  jitterOffsetMs is 0, delayMs is \<^verbatim>\<open>Math.max(0, cappedDelayMs)\<close>, that is 0 for a
  negative cappedDelayMs and cappedDelayMs otherwise, the source of randomness is
  returned as it was, the result is the same for every source, and wasCapped is
  rawDelayMs > cappedDelayMs with cappedDelayMs = Math.min(rawDelayMs, maxDelayMs).
\<close>

theorem jitter_skipped:
  assumes "js_le (arg_jitterFactor opts) (Fin 0)"
  shows "(let r = fst (calculateExponentialBackoff a opts rnd)
          in jitterOffsetMs r = Fin 0 \<and>
             delayMs r = Math_max (Fin 0) (cappedDelayMs r) \<and>
             delayMs r = (if js_lt (cappedDelayMs r) (Fin 0) then Fin 0 else cappedDelayMs r) \<and>
             snd (calculateExponentialBackoff a opts rnd) = rnd \<and>
             (\<forall>g. fst (calculateExponentialBackoff a opts g) = r) \<and>
             wasCapped r = js_gt (rawDelayMs r) (cappedDelayMs r) \<and>
             cappedDelayMs r = Math_min (rawDelayMs r) (arg_maxDelayMs opts))"
proof -
  have off: "\<not> js_gt (arg_jitterFactor opts) (Fin 0)"
    using assms by (rule js_le_not_gt)
  have clamp: "Math_max (Fin 0) c = (if js_lt c (Fin 0) then Fin 0 else c)" for c
    by (cases c) (auto simp: Math_max_def)
  show ?thesis
    using clamp by (simp add: calc_no_jitter [OF off] Let_def)
qed

theorem jitter_skipped_witness:
  "js_le (arg_jitterFactor (config 1000 5000 0)) (Fin 0) \<and>
   jitterOffsetMs (fst (calculateExponentialBackoff (Fin 4) (config 1000 5000 0) (sconst 0))) = Fin 0 \<and>
   delayMs (fst (calculateExponentialBackoff (Fin 4) (config 1000 5000 0) (sconst 0))) = Fin 5000 \<and>
   cappedDelayMs (fst (calculateExponentialBackoff (Fin 4) (config 1000 5000 0) (sconst 0))) = Fin 5000 \<and>
   rawDelayMs (fst (calculateExponentialBackoff (Fin 4) (config 1000 5000 0) (sconst 0))) = Fin 8000 \<and>
   wasCapped (fst (calculateExponentialBackoff (Fin 4) (config 1000 5000 0) (sconst 0))) \<and>
   snd (calculateExponentialBackoff (Fin 4) (config 1000 5000 0) (sconst 0)) = sconst 0"
  using jitter_skipped [of "config 1000 5000 0" "Fin 4" "sconst 0"]
  by (simp add: eval_simps)

text \<open>
  The claim as stated, delayMs = cappedDelayMs for every configuration, fails at
  baseDelayMs = -1000: cappedDelayMs is -1000 and delayMs is 0.
\<close>

theorem jitter_skipped_counterexample:
  "js_le (arg_jitterFactor (config (- 1000) 5000 0)) (Fin 0) \<and>
   delayMs (fst (calculateExponentialBackoff (Fin 1) (config (- 1000) 5000 0) (sconst 0))) = Fin 0 \<and>
   cappedDelayMs (fst (calculateExponentialBackoff (Fin 1) (config (- 1000) 5000 0) (sconst 0))) = Fin (- 1000)"
  by (simp add: eval_simps)

subsection \<open>The capped flag\<close>

text \<open>
  Claim C6. In every result of the calculator, for every attempt, options and draw
  (the special values included), wasCapped is the comparison rawDelayMs > cappedDelayMs,
  cappedDelayMs is Math.min(rawDelayMs, maxDelayMs), and so wasCapped holds exactly when
  rawDelayMs > maxDelayMs.
\<close>

theorem wasCapped_iff:
  "(let r = fst (calculateExponentialBackoff a opts rnd)
    in wasCapped r = js_gt (rawDelayMs r) (cappedDelayMs r) \<and>
       cappedDelayMs r = Math_min (rawDelayMs r) (arg_maxDelayMs opts) \<and>
       wasCapped r = js_gt (rawDelayMs r) (arg_maxDelayMs opts))"
proof -
  have "js_gt x (Math_min x m) = js_gt x m" for x m
    by (cases x; cases m) (auto simp: js_gt_def Math_min_def)
  then show ?thesis
    using wasCapped_calc [of a opts rnd] cappedDelayMs_calc [of a opts rnd] by (simp add: Let_def)
qed

subsection \<open>Overflow of the raw delay\<close>

text \<open>
  Claim C7, as amended. With a finite maxDelayMs, for every attempt: when the raw delay
  has overflowed to Infinity, as it does for a positive baseDelayMs from attempt 1025
  on at the latest, cappedDelayMs = maxDelayMs and wasCapped holds, and with jitter
  switched off delayMs = \<^verbatim>\<open>Math.max(0, maxDelayMs)\<close>, which is maxDelayMs unless
  maxDelayMs is negative. When the raw delay has overflowed to -Infinity, as it does
  for a negative baseDelayMs, cappedDelayMs = -Infinity, wasCapped does not hold, and
  with jitter switched off delayMs = 0.
\<close>

theorem overflow_is_capped:
  assumes "arg_maxDelayMs opts = Fin m"
  shows "(let r = fst (calculateExponentialBackoff a opts rnd)
          in (rawDelayMs r = PosInfinity \<longrightarrow>
                cappedDelayMs r = Fin m \<and> wasCapped r \<and>
                (js_le (arg_jitterFactor opts) (Fin 0) \<longrightarrow>
                   delayMs r = Fin (max 0 m) \<and> jitterOffsetMs r = Fin 0)) \<and>
             (rawDelayMs r = NegInfinity \<longrightarrow>
                cappedDelayMs r = NegInfinity \<and> \<not> wasCapped r \<and>
                (js_le (arg_jitterFactor opts) (Fin 0) \<longrightarrow>
                   delayMs r = Fin 0 \<and> jitterOffsetMs r = Fin 0)))"
proof -
  let ?r = "fst (calculateExponentialBackoff a opts rnd)"
  have off: "delayMs ?r = Math_max (Fin 0) (cappedDelayMs ?r) \<and> jitterOffsetMs ?r = Fin 0"
    if "js_le (arg_jitterFactor opts) (Fin 0)"
  proof -
    have "\<not> js_gt (arg_jitterFactor opts) (Fin 0)"
      using that by (rule js_le_not_gt)
    then show ?thesis by (simp add: calc_no_jitter Let_def)
  qed
  have up: "cappedDelayMs ?r = Fin m \<and> wasCapped ?r \<and>
      (js_le (arg_jitterFactor opts) (Fin 0) \<longrightarrow>
         delayMs ?r = Fin (max 0 m) \<and> jitterOffsetMs ?r = Fin 0)"
    if raw: "rawDelayMs ?r = PosInfinity"
  proof -
    have capped: "cappedDelayMs ?r = Fin m"
      by (simp add: cappedDelayMs_calc raw assms Math_min_def)
    have "wasCapped ?r"
      by (simp add: wasCapped_calc capped raw js_gt_def)
    moreover have "Math_max (Fin 0) (Fin m) = Fin (max 0 m)"
      by (simp add: Math_max_def max_def)
    ultimately show ?thesis using off capped by simp
  qed
  have down: "cappedDelayMs ?r = NegInfinity \<and> \<not> wasCapped ?r \<and>
      (js_le (arg_jitterFactor opts) (Fin 0) \<longrightarrow>
         delayMs ?r = Fin 0 \<and> jitterOffsetMs ?r = Fin 0)"
    if raw: "rawDelayMs ?r = NegInfinity"
  proof -
    have capped: "cappedDelayMs ?r = NegInfinity"
      by (simp add: cappedDelayMs_calc raw assms Math_min_def)
    have "\<not> wasCapped ?r"
      by (simp add: wasCapped_calc capped raw js_gt_def)
    moreover have "Math_max (Fin 0) NegInfinity = Fin 0"
      by (simp add: Math_max_def)
    ultimately show ?thesis using off capped by simp
  qed
  show ?thesis using up down by (simp add: Let_def)
qed

theorem overflow_is_capped_witness:
  "arg_maxDelayMs (config 1000 5000 0) = Fin 5000 \<and>
   js_le (arg_jitterFactor (config 1000 5000 0)) (Fin 0) \<and>
   rawDelayMs (fst (calculateExponentialBackoff (Fin 2000) (config 1000 5000 0) (sconst 0))) =
     PosInfinity \<and>
   cappedDelayMs (fst (calculateExponentialBackoff (Fin 2000) (config 1000 5000 0) (sconst 0))) =
     Fin 5000 \<and>
   wasCapped (fst (calculateExponentialBackoff (Fin 2000) (config 1000 5000 0) (sconst 0))) \<and>
   delayMs (fst (calculateExponentialBackoff (Fin 2000) (config 1000 5000 0) (sconst 0))) =
     Fin 5000 \<and>
   arg_maxDelayMs (config (- 1000) 5000 0) = Fin 5000 \<and>
   js_le (arg_jitterFactor (config (- 1000) 5000 0)) (Fin 0) \<and>
   rawDelayMs (fst (calculateExponentialBackoff (Fin 2000) (config (- 1000) 5000 0) (sconst 0))) =
     NegInfinity \<and>
   cappedDelayMs (fst (calculateExponentialBackoff (Fin 2000) (config (- 1000) 5000 0) (sconst 0))) =
     NegInfinity \<and>
   \<not> wasCapped (fst (calculateExponentialBackoff (Fin 2000) (config (- 1000) 5000 0) (sconst 0))) \<and>
   delayMs (fst (calculateExponentialBackoff (Fin 2000) (config (- 1000) 5000 0) (sconst 0))) =
     Fin 0"
proof -
  have up: "rawDelayMs (fst (calculateExponentialBackoff (Fin 2000) (config 1000 5000 0) (sconst 0))) =
      PosInfinity"
    by (rule raw_overflows [of _ 1000]) simp_all
  have down: "rawDelayMs (fst (calculateExponentialBackoff (Fin 2000) (config (- 1000) 5000 0)
      (sconst 0))) = NegInfinity"
    by (rule raw_overflows_negative [of _ "- 1000"]) simp_all
  from overflow_is_capped [of "config 1000 5000 0" 5000 "Fin 2000" "sconst 0"]
    overflow_is_capped [of "config (- 1000) 5000 0" 5000 "Fin 2000" "sconst 0"] up down
  show ?thesis by (simp add: Let_def)
qed

text \<open>
  The claim as stated fails at maxDelayMs = -5 (base 1000, attempt 1025, no jitter):
  the raw delay is Infinity and delayMs is 0, not maxDelayMs. It fails at
  baseDelayMs = -1000 (max 5000, attempt 1025) as well: the raw delay is the infinite
  value -Infinity, and cappedDelayMs is -Infinity, not maxDelayMs.
\<close>

theorem overflow_is_capped_counterexample:
  "rawDelayMs (fst (calculateExponentialBackoff (Fin 1025) (config 1000 (- 5) 0) (sconst 0))) =
     PosInfinity \<and>
   arg_maxDelayMs (config 1000 (- 5) 0) = Fin (- 5) \<and>
   js_le (arg_jitterFactor (config 1000 (- 5) 0)) (Fin 0) \<and>
   delayMs (fst (calculateExponentialBackoff (Fin 1025) (config 1000 (- 5) 0) (sconst 0))) = Fin 0 \<and>
   delayMs (fst (calculateExponentialBackoff (Fin 1025) (config 1000 (- 5) 0) (sconst 0))) \<noteq>
     arg_maxDelayMs (config 1000 (- 5) 0) \<and>
   rawDelayMs (fst (calculateExponentialBackoff (Fin 1025) (config (- 1000) 5000 0) (sconst 0))) =
     NegInfinity \<and>
   arg_maxDelayMs (config (- 1000) 5000 0) = Fin 5000 \<and>
   cappedDelayMs (fst (calculateExponentialBackoff (Fin 1025) (config (- 1000) 5000 0) (sconst 0))) =
     NegInfinity \<and>
   cappedDelayMs (fst (calculateExponentialBackoff (Fin 1025) (config (- 1000) 5000 0) (sconst 0))) \<noteq>
     arg_maxDelayMs (config (- 1000) 5000 0)"
  by (simp add: eval_simps Math_pow2_1024 del: Math_pow2.simps)

subsection \<open>The calculator always returns\<close>




subsection \<open>The attempt counter of RetryManager\<close>

lemma waitForNextRetry_unfold:
  "waitForNextRetry m rnd =
     (fst (calculateExponentialBackoff (js_add (attemptCount m) (Fin 1)) (Some (options m)) rnd),
      m \<lparr> attemptCount := js_add (attemptCount m) (Fin 1) \<rparr>,
      snd (calculateExponentialBackoff (js_add (attemptCount m) (Fin 1)) (Some (options m)) rnd))"
  by (simp add: waitForNextRetry_def Let_def case_prod_beta)

text \<open>
  Claim C9. A fresh RetryManager, for any options and any source of randomness: three
  successive calls of waitForNextRetry return results with retryAttempt 1, 2 and 3 and
  leave the counter at 3; reset puts the counter back to 0 and the next call returns
  retryAttempt 1 again. Every call adds exactly one to the counter and then computes
  the backoff for the new counter value.
\<close>

theorem retry_manager_attempts:
  "(let m0 = new_RetryManager opts;
        (r1, m1, g1) = waitForNextRetry m0 rnd;
        (r2, m2, g2) = waitForNextRetry m1 g1;
        (r3, m3, g3) = waitForNextRetry m2 g2;
        m4 = reset m3;
        (r4, m5, g4) = waitForNextRetry m4 g3
    in retryAttempt r1 = Fin 1 \<and> retryAttempt r2 = Fin 2 \<and> retryAttempt r3 = Fin 3 \<and>
       attemptCount m3 = Fin 3 \<and> attemptCount m4 = Fin 0 \<and> retryAttempt r4 = Fin 1) \<and>
   (\<forall>m g. attemptCount (fst (snd (waitForNextRetry m g))) = js_add (attemptCount m) (Fin 1) \<and>
      fst (waitForNextRetry m g) =
        fst (calculateExponentialBackoff (js_add (attemptCount m) (Fin 1)) (Some (options m)) g))"
  by (simp add: waitForNextRetry_unfold new_RetryManager_def reset_def retryAttempt_calc
        round_overflow_small Math_max_def Let_def)

subsection \<open>Monotone delays\<close>

text \<open>
  Claim C10, as amended. With baseDelayMs > 0, jitterFactor \<open>\<le> 0\<close> and a maxDelayMs
  other than NaN (finite or infinite), for all attempts \<open>a \<le> b\<close>: the delayMs of
  attempt a is at most the delayMs of attempt b, and every delayMs is at most
  Math.max(baseDelayMs, maxDelayMs).
\<close>

theorem delay_monotone:
  assumes "js_gt (arg_baseDelayMs opts) (Fin 0)"
    and "js_le (arg_jitterFactor opts) (Fin 0)"
    and "arg_maxDelayMs opts \<noteq> NaN"
    and "js_le a b"
  shows "js_le (delayMs (fst (calculateExponentialBackoff a opts rnd)))
               (delayMs (fst (calculateExponentialBackoff b opts rnd'))) \<and>
         js_le (delayMs (fst (calculateExponentialBackoff b opts rnd')))
               (Math_max (arg_baseDelayMs opts) (arg_maxDelayMs opts))"
proof -
  let ?n = "\<lambda>x. Math_max (Fin 1) (Math_floor x)"
  let ?p = "\<lambda>x. Math_pow2 (js_sub (?n x) (Fin 1))"
  let ?raw = "\<lambda>x. js_mul (arg_baseDelayMs opts) (?p x)"
  have off: "\<not> js_gt (arg_jitterFactor opts) (Fin 0)"
    using assms(2) by (rule js_le_not_gt)
  have delay: "delayMs (fst (calculateExponentialBackoff x opts g)) =
      Math_max (Fin 0) (Math_min (?raw x) (arg_maxDelayMs opts))" for x g
    by (simp add: calc_no_jitter [OF off] Let_def)
  have base: "js_lt (Fin 0) (arg_baseDelayMs opts)"
    using assms(1) by (simp add: js_gt_def)
  have pos: "js_lt (Fin 0) (?p x)" if "x \<noteq> NaN" for x
  proof -
    have "Math_floor x \<noteq> NaN" using that by (cases x) simp_all
    then have "js_le (Fin 1) (?n x)" by (intro Math_max_ge_left) simp_all
    then have "js_le (js_sub (Fin 1) (Fin 1)) (js_sub (?n x) (Fin 1))"
      by (rule js_sub_1_mono)
    then have "js_le (Fin 0) (js_sub (?n x) (Fin 1))"
      by (simp add: js_sub_def round_overflow_small)
    then show ?thesis by (rule Math_pow2_pos)
  qed
  have "a \<noteq> NaN" "b \<noteq> NaN" using assms(4) by (simp_all add: js_le_def)
  have "js_le (?n a) (?n b)"
    using assms(4) by (intro Math_max_mono Math_floor_mono) simp_all
  then have "js_le (?p a) (?p b)"
    by (intro Math_pow2_mono js_sub_1_mono)
  then have raw: "js_le (?raw a) (?raw b)"
    using base pos [OF \<open>a \<noteq> NaN\<close>] by (intro js_mul_mono)
  then have "js_le (Math_min (?raw a) (arg_maxDelayMs opts)) (Math_min (?raw b) (arg_maxDelayMs opts))"
    using assms(3) by (rule Math_min_mono)
  then have mono: "js_le (Math_max (Fin 0) (Math_min (?raw a) (arg_maxDelayMs opts)))
      (Math_max (Fin 0) (Math_min (?raw b) (arg_maxDelayMs opts)))"
    by (rule Math_max_mono) simp
  have "?raw b \<noteq> NaN" using raw by (simp add: js_le_def)
  with base have "js_le (Math_max (Fin 0) (Math_min (?raw b) (arg_maxDelayMs opts)))
      (Math_max (arg_baseDelayMs opts) (arg_maxDelayMs opts))"
    using assms(3) by (intro delay_bound)
  with mono show ?thesis by (simp add: delay)
qed

theorem delay_monotone_witness:
  "js_gt (arg_baseDelayMs (config 1000 5000 0)) (Fin 0) \<and>
   js_le (arg_jitterFactor (config 1000 5000 0)) (Fin 0) \<and>
   arg_maxDelayMs (config 1000 5000 0) \<noteq> NaN \<and> js_le (Fin 2) (Fin 3) \<and>
   js_le (delayMs (fst (calculateExponentialBackoff (Fin 2) (config 1000 5000 0) (sconst 0))))
         (delayMs (fst (calculateExponentialBackoff (Fin 3) (config 1000 5000 0) (sconst 0)))) \<and>
   js_le (delayMs (fst (calculateExponentialBackoff (Fin 3) (config 1000 5000 0) (sconst 0))))
         (Math_max (arg_baseDelayMs (config 1000 5000 0)) (arg_maxDelayMs (config 1000 5000 0))) \<and>
   delayMs (fst (calculateExponentialBackoff (Fin 2) (config 1000 5000 0) (sconst 0))) = Fin 2000 \<and>
   delayMs (fst (calculateExponentialBackoff (Fin 3) (config 1000 5000 0) (sconst 0))) = Fin 4000"
  using delay_monotone [of "config 1000 5000 0" "Fin 2" "Fin 3" "sconst 0" "sconst 0"]
  by (simp add: eval_simps)

text \<open>
  The claim as stated, for every configuration with baseDelayMs > 0 and jitterFactor
  \<open>\<le> 0\<close>, fails at maxDelayMs = NaN: \<^verbatim>\<open>Math.min(rawDelayMs, NaN)\<close> is NaN, every
  delayMs is NaN, and no comparison with NaN holds.
\<close>

theorem delay_monotone_counterexample:
  "js_gt (arg_baseDelayMs (config_of (Fin 1000) NaN (Fin 0))) (Fin 0) \<and>
   js_le (arg_jitterFactor (config_of (Fin 1000) NaN (Fin 0))) (Fin 0) \<and>
   js_le (Fin 1) (Fin 2) \<and>
   delayMs (fst (calculateExponentialBackoff (Fin 1) (config_of (Fin 1000) NaN (Fin 0)) (sconst 0))) =
     NaN \<and>
   delayMs (fst (calculateExponentialBackoff (Fin 2) (config_of (Fin 1000) NaN (Fin 0)) (sconst 0))) =
     NaN \<and>
   \<not> js_le
     (delayMs (fst (calculateExponentialBackoff (Fin 1) (config_of (Fin 1000) NaN (Fin 0)) (sconst 0))))
     (delayMs (fst (calculateExponentialBackoff (Fin 2) (config_of (Fin 1000) NaN (Fin 0)) (sconst 0)))) \<and>
   \<not> js_le
     (delayMs (fst (calculateExponentialBackoff (Fin 2) (config_of (Fin 1000) NaN (Fin 0)) (sconst 0))))
     (Math_max (arg_baseDelayMs (config_of (Fin 1000) NaN (Fin 0)))
        (arg_maxDelayMs (config_of (Fin 1000) NaN (Fin 0))))"
  by (simp add: eval_simps js_le_def)

end
